theory Spec2Isabelle
  imports Complex_Main
begin

section \<open>Numbers and errors\<close>

text \<open>
  The program computes in numpy's float64. The embedding takes the finite values as exact
  reals (no rounding, no overflow) and keeps the two special values that exact arithmetic
  can still reach, through the division by \<open>self.wavelength\<close>: an infinity and NaN.
  The sign of a zero and of an infinity is not tracked; numpy's cosine sends every
  infinity to NaN, so no sign is ever observed.
\<close>

datatype float64 = Val real | Inf | NaN

datatype error = ValueError | ZeroDivisionError

text \<open>\<open>a / b\<close> of numpy for finite \<open>a\<close>, \<open>b\<close>: no exception, a warning at most.\<close>

definition fdiv :: "real \<Rightarrow> real \<Rightarrow> float64" where
  "fdiv a b = (if b \<noteq> 0 then Val (a / b) else if a \<noteq> 0 then Inf else NaN)"

text \<open>\<open>np.cos\<close>, \<open>k + c\<close> and \<open>k * c\<close> for a finite scalar \<open>k\<close>.\<close>

fun fcos :: "float64 \<Rightarrow> float64" where
  "fcos (Val x) = Val (cos x)"
| "fcos Inf = NaN"
| "fcos NaN = NaN"

fun fadd :: "real \<Rightarrow> float64 \<Rightarrow> float64" where
  "fadd k (Val x) = Val (k + x)"
| "fadd k Inf = Inf"
| "fadd k NaN = NaN"

fun fmul :: "real \<Rightarrow> float64 \<Rightarrow> float64" where
  "fmul k (Val x) = Val (k * x)"
| "fmul k Inf = (if k = 0 then NaN else Inf)"
| "fmul k NaN = NaN"

section \<open>The numpy functions the program calls\<close>

text \<open>
  \<open>np.linspace(start, stop, num)\<close>: a negative \<open>num\<close> raises ValueError; otherwise the
  samples are \<open>i * step + start\<close> for \<open>i = 0 .. num - 1\<close> with
  \<open>step = (stop - start) / (num - 1)\<close>, and for \<open>num > 1\<close> the last sample is
  overwritten by \<open>stop\<close>. With \<open>num = 1\<close> nothing is divided and the one sample is
  \<open>start\<close>.
\<close>

definition linspace :: "real \<Rightarrow> real \<Rightarrow> int \<Rightarrow> error + real list" where
  "linspace start stop num =
     (if num < 0 then Inl ValueError
      else
        let dv = num - 1;
            delta = stop - start;
            step = (if 0 < dv then delta / real_of_int dv else delta);
            y = map (\<lambda>i. real i * step + start) [0..<nat num]
        in Inr (if 1 < num then y[nat num - 1 := stop] else y))"

text \<open>
  \<open>np.meshgrid(x, y)\<close> with the default \<open>indexing='xy'\<close>: both results have
  \<open>len(y)\<close> rows and \<open>len(x)\<close> columns, \<open>X[i][j] = x[j]\<close> and \<open>Y[i][j] = y[i]\<close>.
\<close>

definition meshgrid :: "real list \<Rightarrow> real list \<Rightarrow> real list list \<times> real list list" where
  "meshgrid x y = (replicate (length y) x, map (\<lambda>v. replicate (length x) v) y)"

text \<open>Elementwise application of a function to one array, and to two arrays of one shape.\<close>

definition arr_map :: "('a \<Rightarrow> 'b) \<Rightarrow> 'a list list \<Rightarrow> 'b list list" where
  "arr_map f A = map (map f) A"

definition arr_map2 :: "('a \<Rightarrow> 'b \<Rightarrow> 'c) \<Rightarrow> 'a list list \<Rightarrow> 'b list list \<Rightarrow> 'c list list" where
  "arr_map2 f A B = map (\<lambda>(r, s). map (\<lambda>(a, b). f a b) (zip r s)) (zip A B)"

text \<open>\<open>np.radians\<close>: degrees to radians.\<close>

definition radians :: "real \<Rightarrow> real" where
  "radians x = x * (pi / 180)"

section \<open>The slider widget\<close>

text \<open>
  What the program uses of \<open>matplotlib.widgets.Slider\<close>: the current value \<open>val\<close>,
  the initial value \<open>valinit\<close> and the bounds. The library is not part of the
  repository; the model follows its class: the constructor clips \<open>valinit\<close> into the
  bounds (\<open>valinit = self._value_in_bounds(valinit)\<close>) and stores the result as
  \<open>val\<close> and as \<open>valinit\<close>. The sliders of the program have no step and no
  neighbouring slider, so clipping is all that \<open>_value_in_bounds\<close> does.
\<close>

record slider =
  val :: real
  valinit :: real
  valmin :: real
  valmax :: real

definition value_in_bounds :: "slider \<Rightarrow> real \<Rightarrow> real" where
  "value_in_bounds s v =
     (if v \<le> valmin s then valmin s else if valmax s \<le> v then valmax s else v)"

definition Slider :: "real \<Rightarrow> real \<Rightarrow> real \<Rightarrow> slider" where
  "Slider lo hi init =
     (let s = \<lparr>val = init, valinit = init, valmin = lo, valmax = hi\<rparr>;
          v = value_in_bounds s init
      in s\<lparr>val := v, valinit := v\<rparr>)"

section \<open>The class \<open>EqualInclinationInterference\<close>\<close>

text \<open>
  The fields of \<open>self\<close> that the methods read or write. Of the image \<open>self.img\<close> the
  record keeps what \<open>set_data\<close> and \<open>set_extent\<close> store.
\<close>

record engine =
  wavelength :: real
  refractive_index :: real
  thickness :: real
  incidence_angle_range :: real
  intensity_max :: real
  resolution :: int
  slider_wavelength :: slider
  slider_thickness :: slider
  slider_refractive :: slider
  slider_angle :: slider
  img_data :: "float64 list list"
  img_extent :: "real list"

text \<open>
  Line 77 on one element of \<open>theta_rad\<close>:
  \<open>4 * np.pi * self.refractive_index * self.thickness * np.cos(theta_rad) / self.wavelength\<close>.
\<close>

definition phase_delta :: "engine \<Rightarrow> real \<Rightarrow> float64" where
  "phase_delta self theta_rad =
     fdiv (4 * pi * refractive_index self * thickness self * cos theta_rad) (wavelength self)"

text \<open>Line 80 on one element of \<open>delta\<close>: \<open>self.intensity_max * (1 + np.cos(delta))\<close>.\<close>

definition intensity :: "engine \<Rightarrow> float64 \<Rightarrow> float64" where
  "intensity self delta = fmul (intensity_max self) (fadd 1 (fcos delta))"

text \<open>
  \<open>_calculate_pattern\<close>. The method assigns to no field of \<open>self\<close>; it is written in
  state-passing form so that this is part of what it returns.
\<close>

definition calculate_pattern :: "engine \<Rightarrow> error + (float64 list list \<times> engine)" where
  "calculate_pattern self =
     (case linspace (- incidence_angle_range self) (incidence_angle_range self) (resolution self) of
        Inl e \<Rightarrow> Inl e
      | Inr x \<Rightarrow>
     (case linspace (- incidence_angle_range self) (incidence_angle_range self) (resolution self) of
        Inl e \<Rightarrow> Inl e
      | Inr y \<Rightarrow>
          let (X, Y) = meshgrid x y;
              theta = arr_map sqrt (arr_map2 (+) (arr_map (\<lambda>v. v ^ 2) X) (arr_map (\<lambda>v. v ^ 2) Y));
              theta_rad = arr_map radians theta;
              delta = arr_map (phase_delta self) theta_rad;
              result = arr_map (intensity self) delta
          in Inr (result, self)))"

text \<open>
  \<open>update\<close>: the four interactive fields are read back from the sliders, the pattern is
  computed again and stored in the image together with the new extent. The argument
  \<open>val\<close> is not used. (\<open>draw_idle\<close> only asks for a repaint.)
\<close>

definition update :: "engine \<Rightarrow> real \<Rightarrow> error + engine" where
  "update self v =
     (let self1 = self\<lparr>wavelength := val (slider_wavelength self)\<rparr>;
          self2 = self1\<lparr>thickness := val (slider_thickness self1)\<rparr>;
          self3 = self2\<lparr>refractive_index := val (slider_refractive self2)\<rparr>;
          self4 = self3\<lparr>incidence_angle_range := val (slider_angle self3)\<rparr>
      in case calculate_pattern self4 of
           Inl e \<Rightarrow> Inl e
         | Inr (f, self5) \<Rightarrow>
             Inr (self5\<lparr>img_data := f,
                        img_extent := [- incidence_angle_range self5, incidence_angle_range self5,
                                       - incidence_angle_range self5, incidence_angle_range self5]\<rparr>))"

text \<open>
  The four sliders by name. Each has \<open>update\<close> as its only observer (lines 59 to 62),
  so \<open>Slider.set_val\<close> stores the value and calls \<open>update\<close> with it. A drag by the user
  clips the value into the bounds first and does nothing when the value is the current
  one; \<open>Slider.reset\<close> sets \<open>valinit\<close> unless it is the current value already.
\<close>

datatype slider_name = SWavelength | SThickness | SRefractive | SAngle

fun get_slider :: "slider_name \<Rightarrow> engine \<Rightarrow> slider" where
  "get_slider SWavelength self = slider_wavelength self"
| "get_slider SThickness self = slider_thickness self"
| "get_slider SRefractive self = slider_refractive self"
| "get_slider SAngle self = slider_angle self"

fun put_slider :: "slider_name \<Rightarrow> slider \<Rightarrow> engine \<Rightarrow> engine" where
  "put_slider SWavelength s self = self\<lparr>slider_wavelength := s\<rparr>"
| "put_slider SThickness s self = self\<lparr>slider_thickness := s\<rparr>"
| "put_slider SRefractive s self = self\<lparr>slider_refractive := s\<rparr>"
| "put_slider SAngle s self = self\<lparr>slider_angle := s\<rparr>"

definition slider_set_val :: "slider_name \<Rightarrow> real \<Rightarrow> engine \<Rightarrow> error + engine" where
  "slider_set_val nm v self = update (put_slider nm ((get_slider nm self)\<lparr>val := v\<rparr>) self) v"

definition slider_drag :: "slider_name \<Rightarrow> real \<Rightarrow> engine \<Rightarrow> error + engine" where
  "slider_drag nm v self =
     (let v' = value_in_bounds (get_slider nm self) v
      in if v' \<noteq> val (get_slider nm self) then slider_set_val nm v' self else Inr self)"

definition slider_reset :: "slider_name \<Rightarrow> engine \<Rightarrow> error + engine" where
  "slider_reset nm self =
     (if val (get_slider nm self) \<noteq> valinit (get_slider nm self)
      then slider_set_val nm (valinit (get_slider nm self)) self
      else Inr self)"

text \<open>\<open>reset\<close>: the four sliders are reset in the order of the source. The event is not used.\<close>

definition reset :: "engine \<Rightarrow> error + engine" where
  "reset self =
     (case slider_reset SWavelength self of Inl e \<Rightarrow> Inl e | Inr self1 \<Rightarrow>
     (case slider_reset SThickness self1 of Inl e \<Rightarrow> Inl e | Inr self2 \<Rightarrow>
     (case slider_reset SRefractive self2 of Inl e \<Rightarrow> Inl e | Inr self3 \<Rightarrow>
      slider_reset SAngle self3)))"

text \<open>
  \<open>__init__\<close>: the fields take the arguments as given and the sliders are built on the
  same arguments (\<open>init_self\<close>, lines 20 to 41, the image not yet there); then the image
  is created on the first pattern with the extent of the argument
  \<open>incidence_angle_range\<close>.
\<close>

definition init_self :: "real \<Rightarrow> real \<Rightarrow> real \<Rightarrow> real \<Rightarrow> real \<Rightarrow> int \<Rightarrow> engine" where
  "init_self wavelength0 refractive_index0 thickness0 incidence_angle_range0 intensity_max0 resolution0 =
     \<lparr>wavelength = wavelength0,
      refractive_index = refractive_index0,
      thickness = thickness0,
      incidence_angle_range = incidence_angle_range0,
      intensity_max = intensity_max0,
      resolution = resolution0,
      slider_wavelength = Slider 400 800 wavelength0,
      slider_thickness = Slider 100 5000 thickness0,
      slider_refractive = Slider 1 2 refractive_index0,
      slider_angle = Slider 5 60 incidence_angle_range0,
      img_data = [],
      img_extent = []\<rparr>"

definition init :: "real \<Rightarrow> real \<Rightarrow> real \<Rightarrow> real \<Rightarrow> real \<Rightarrow> int \<Rightarrow> error + engine" where
  "init wavelength0 refractive_index0 thickness0 incidence_angle_range0 intensity_max0 resolution0 =
     (let self = init_self wavelength0 refractive_index0 thickness0 incidence_angle_range0
                   intensity_max0 resolution0
      in case calculate_pattern self of
           Inl e \<Rightarrow> Inl e
         | Inr (f, self') \<Rightarrow>
             Inr (self'\<lparr>img_data := f,
                        img_extent := [- incidence_angle_range0, incidence_angle_range0,
                                       - incidence_angle_range0, incidence_angle_range0]\<rparr>))"

text \<open>
  \<open>animate\<close>: the thickness of frame \<open>frame\<close> out of \<open>frames\<close> (line 112). The quotient
  is one of Python floats, so \<open>frames = 0\<close> raises ZeroDivisionError. \<open>update_frame\<close>
  stores the thickness and sets the thickness slider to it.
\<close>

definition frame_thickness :: "int \<Rightarrow> int \<Rightarrow> error + real" where
  "frame_thickness frames frame =
     (if frames = 0 then Inl ZeroDivisionError
      else Inr (100 + 4900 * (0.5 + 0.5 * sin (real_of_int frame * 2 * pi / real_of_int frames))))"

definition update_frame :: "int \<Rightarrow> engine \<Rightarrow> int \<Rightarrow> error + engine" where
  "update_frame frames self frame =
     (case frame_thickness frames frame of
        Inl e \<Rightarrow> Inl e
      | Inr t \<Rightarrow> slider_set_val SThickness t (self\<lparr>thickness := t\<rparr>))"

text \<open>
  Lines 73 to 80 on one element of the grid, at the coordinates \<open>xv\<close> and \<open>yv\<close> in
  degrees: what \<open>_calculate_pattern\<close> stores at a grid point.
\<close>

definition cell :: "engine \<Rightarrow> real \<Rightarrow> real \<Rightarrow> float64" where
  "cell self xv yv = intensity self (phase_delta self (radians (sqrt (xv ^ 2 + yv ^ 2))))"

text \<open>An element is a finite number of the closed interval from \<open>lo\<close> to \<open>hi\<close>.\<close>

definition in_interval :: "real \<Rightarrow> real \<Rightarrow> float64 \<Rightarrow> bool" where
  "in_interval lo hi c = (case c of Val v \<Rightarrow> lo \<le> v \<and> v \<le> hi | Inf \<Rightarrow> False | NaN \<Rightarrow> False)"

section \<open>Events of the user interface\<close>

text \<open>
  A parameter is changed from outside by setting its slider (\<open>Slider.set_val\<close>, as
  \<open>update_frame\<close> does) or by dragging it; this is the \<open>setParameter(name, value)\<close> of
  the specification. A sequence of such events runs until the first error.
\<close>

datatype ui_event = Set slider_name real | Drag slider_name real

fun ui_step :: "engine \<Rightarrow> ui_event \<Rightarrow> error + engine" where
  "ui_step self (Set nm v) = slider_set_val nm v self"
| "ui_step self (Drag nm v) = slider_drag nm v self"

fun run_events :: "engine \<Rightarrow> ui_event list \<Rightarrow> error + engine" where
  "run_events self [] = Inr self"
| "run_events self (e # es) =
     (case ui_step self e of Inl err \<Rightarrow> Inl err | Inr self' \<Rightarrow> run_events self' es)"

text \<open>The interactive field that belongs to a slider.\<close>

fun param :: "slider_name \<Rightarrow> engine \<Rightarrow> real" where
  "param SWavelength self = wavelength self"
| "param SThickness self = thickness self"
| "param SRefractive self = refractive_index self"
| "param SAngle self = incidence_angle_range self"

text \<open>
  The state that \<open>update\<close> leaves behind: the four interactive fields equal the values of
  their sliders, and the image holds the pattern and the extent of the current fields.
  \<open>kept s0 s\<close>: \<open>s\<close> is such a state with the fixed parameters and the slider
  configuration (initial values and bounds) of \<open>s0\<close>.
\<close>

definition settled :: "engine \<Rightarrow> bool" where
  "settled self \<longleftrightarrow>
     wavelength self = val (slider_wavelength self) \<and>
     thickness self = val (slider_thickness self) \<and>
     refractive_index self = val (slider_refractive self) \<and>
     incidence_angle_range self = val (slider_angle self) \<and>
     calculate_pattern self = Inr (img_data self, self) \<and>
     img_extent self = [- incidence_angle_range self, incidence_angle_range self,
                        - incidence_angle_range self, incidence_angle_range self]"

definition kept :: "engine \<Rightarrow> engine \<Rightarrow> bool" where
  "kept s0 s \<longleftrightarrow>
     settled s \<and> intensity_max s = intensity_max s0 \<and> resolution s = resolution s0 \<and>
     (\<forall>nm. valinit (get_slider nm s) = valinit (get_slider nm s0) \<and>
           valmin (get_slider nm s) = valmin (get_slider nm s0) \<and>
           valmax (get_slider nm s) = valmax (get_slider nm s0))"

section \<open>The reference definition of the specification\<close>

text \<open>
  \<open>computeField()\<close> in the words of the specification: \<open>resolution\<close> coordinates evenly
  spaced over the closed interval from \<open>- angleRange\<close> to \<open>angleRange\<close>, and for every
  pair of coordinates the radial angle, its radians, the phase and the intensity. The rows
  follow the first coordinate of the pair. The spacing is the length of the interval over
  \<open>resolution - 1\<close>; a single sample has index 0, so its coordinate is \<open>- angleRange\<close>
  whatever the spacing.
\<close>

definition spec_coords :: "real \<Rightarrow> nat \<Rightarrow> real list" where
  "spec_coords angleRange resolution0 =
     map (\<lambda>i. - angleRange + real i * (2 * angleRange / real (resolution0 - 1)))
       [0..<resolution0]"

definition spec_field :: "real \<Rightarrow> real \<Rightarrow> real \<Rightarrow> real \<Rightarrow> real \<Rightarrow> nat \<Rightarrow> real list list" where
  "spec_field wavelength0 refractiveIndex thickness0 angleRange intensityMax resolution0 =
     map (\<lambda>x. map (\<lambda>y.
            let theta = sqrt (x ^ 2 + y ^ 2);
                theta_rad = theta * pi / 180;
                delta = 4 * pi * refractiveIndex * thickness0 * cos theta_rad / wavelength0
            in intensityMax * (1 + cos delta))
          (spec_coords angleRange resolution0))
       (spec_coords angleRange resolution0)"

section \<open>The grid and the pattern\<close>

lemma grid_cells:
  "arr_map2 f (arr_map p (fst (meshgrid x y))) (arr_map q (snd (meshgrid x y)))
   = map (\<lambda>yv. map (\<lambda>xv. f (p xv) (q yv)) x) y"
  unfolding arr_map_def arr_map2_def meshgrid_def
  by (rule nth_equalityI) (auto intro!: nth_equalityI)

lemma linspace_length: "linspace a b n = Inr xs \<Longrightarrow> length xs = nat n"
  by (auto simp: linspace_def Let_def split: if_splits)

lemma linspace_Inr: "0 \<le> n \<Longrightarrow> \<exists>xs. linspace a b n = Inr xs"
  by (simp add: linspace_def Let_def)

lemma linspace_nth:
  assumes "linspace a b n = Inr xs" and "i < nat n"
  shows "xs ! i = (if n = 1 then a else a + real i * ((b - a) / real_of_int (n - 1)))"
  using assms
  by (auto simp: linspace_def Let_def nth_list_update field_simps of_nat_diff split: if_splits)

lemma calculate_pattern_cells:
  assumes "linspace (- incidence_angle_range s) (incidence_angle_range s) (resolution s) = Inr xs"
  shows "calculate_pattern s = Inr (map (\<lambda>yv. map (\<lambda>xv. cell s xv yv) xs) xs, s)"
proof -
  have "arr_map (intensity s) (arr_map (phase_delta s) (arr_map radians (arr_map sqrt
          (arr_map2 (+) (arr_map (\<lambda>v. v ^ 2) (fst (meshgrid xs xs)))
                        (arr_map (\<lambda>v. v ^ 2) (snd (meshgrid xs xs)))))))
        = map (\<lambda>yv. map (\<lambda>xv. cell s xv yv) xs) xs"
    unfolding grid_cells by (simp add: arr_map_def cell_def comp_def)
  then show ?thesis
    using assms by (simp add: calculate_pattern_def Let_def case_prod_beta)
qed

lemma cell_Val:
  "wavelength s \<noteq> 0 \<Longrightarrow>
   cell s xv yv = Val (intensity_max s * (1 + cos (4 * pi * refractive_index s * thickness s
                         * cos (sqrt (xv ^ 2 + yv ^ 2) * pi / 180) / wavelength s)))"
  by (simp add: cell_def intensity_def phase_delta_def fdiv_def radians_def)

lemma linspace_spec_coords:
  assumes "0 \<le> n"
  shows "linspace (- a) a n = Inr (spec_coords a (nat n))"
proof -
  obtain xs where xs: "linspace (- a) a n = Inr xs"
    using linspace_Inr [OF assms] by blast
  have "xs = spec_coords a (nat n)"
  proof (rule nth_equalityI)
    show "length xs = length (spec_coords a (nat n))"
      using linspace_length [OF xs] by (simp add: spec_coords_def)
  next
    fix i assume "i < length xs"
    then have i: "i < nat n" using linspace_length [OF xs] by simp
    then have "1 \<le> n" by simp
    then have "real (nat n - 1) = real_of_int (n - 1)"
      by (simp add: of_nat_diff)
    with i show "xs ! i = spec_coords a (nat n) ! i"
      using linspace_nth [OF xs i] by (auto simp: spec_coords_def)
  qed
  with xs show ?thesis by simp
qed

text \<open>
  Claim C1. For every parameter tuple of the specification's data model (a wavelength other
  than zero, a resolution that is not negative), \<open>_calculate_pattern\<close> returns the field
  of the reference definition: two coordinate sequences of length \<open>resolution\<close> evenly
  spaced from \<open>- angleRange\<close> to \<open>angleRange\<close>, and at every pair the intensity
  \<open>intensityMax * (1 + cos delta)\<close> with
  \<open>delta = 4 * pi * refractiveIndex * thickness * cos theta_rad / wavelength\<close>, every
  element finite, and \<open>self\<close> unchanged.
\<close>

theorem calculate_pattern_refines_spec:
  assumes "wavelength s \<noteq> 0" and "0 \<le> resolution s"
  shows "calculate_pattern s =
           Inr (arr_map Val (spec_field (wavelength s) (refractive_index s) (thickness s)
                               (incidence_angle_range s) (intensity_max s) (nat (resolution s))), s)"
  using assms
  by (simp add: calculate_pattern_cells [OF linspace_spec_coords] cell_Val spec_field_def
        arr_map_def Let_def comp_def add.commute)

theorem calculate_pattern_refines_spec_witness:
  "wavelength (init_self 632.8 1 1500 60 1 500) \<noteq> 0 \<and>
   0 \<le> resolution (init_self 632.8 1 1500 60 1 500) \<and>
   calculate_pattern (init_self 632.8 1 1500 60 1 500) =
     Inr (arr_map Val (spec_field 632.8 1 1500 60 1 500), init_self 632.8 1 1500 60 1 500)"
  using calculate_pattern_refines_spec [of "init_self 632.8 1 1500 60 1 500"]
  by (simp add: init_self_def)

text \<open>
  Claim C2. For a valid parameter tuple (a wavelength other than zero, an intensity factor
  and a resolution that are not negative) \<open>_calculate_pattern\<close> returns \<open>resolution\<close>
  rows of \<open>resolution\<close> elements, and every element is a finite number between \<open>0\<close> and
  \<open>2 * intensity_max\<close>.
\<close>

theorem calculate_pattern_shape_range:
  assumes "wavelength s \<noteq> 0" and "0 \<le> intensity_max s" and "0 \<le> resolution s"
  shows "\<exists>F. calculate_pattern s = Inr (F, s) \<and> length F = nat (resolution s) \<and>
             (\<forall>row \<in> set F. length row = nat (resolution s) \<and>
                (\<forall>c \<in> set row. in_interval 0 (2 * intensity_max s) c))"
proof -
  obtain xs where xs: "linspace (- incidence_angle_range s) (incidence_angle_range s) (resolution s) = Inr xs"
    using linspace_Inr [OF assms(3)] by blast
  have bound: "in_interval 0 (2 * intensity_max s) (cell s xv yv)" for xv yv
  proof -
    let ?d = "4 * pi * refractive_index s * thickness s * cos (sqrt (xv ^ 2 + yv ^ 2) * pi / 180) / wavelength s"
    have "0 \<le> 1 + cos ?d" "1 + cos ?d \<le> 2"
      using cos_ge_minus_one [of ?d] cos_le_one [of ?d] by linarith+
    then have "0 \<le> intensity_max s * (1 + cos ?d)" "intensity_max s * (1 + cos ?d) \<le> 2 * intensity_max s"
      using assms(2) mult_left_mono [of "1 + cos ?d" 2 "intensity_max s"] by simp_all
    then show ?thesis
      using assms(1) by (simp add: cell_Val in_interval_def)
  qed
  show ?thesis
    using linspace_length [OF xs] bound
    by (auto simp: calculate_pattern_cells [OF xs])
qed

theorem calculate_pattern_shape_range_witness:
  "wavelength (init_self 632.8 1 1500 60 1 500) \<noteq> 0 \<and>
   0 \<le> intensity_max (init_self 632.8 1 1500 60 1 500) \<and>
   0 \<le> resolution (init_self 632.8 1 1500 60 1 500) \<and>
   (\<exists>F. calculate_pattern (init_self 632.8 1 1500 60 1 500) =
           Inr (F, init_self 632.8 1 1500 60 1 500) \<and>
        length F = 500 \<and>
        (\<forall>row \<in> set F. length row = 500 \<and> (\<forall>c \<in> set row. in_interval 0 2 c)))"
  using calculate_pattern_shape_range [of "init_self 632.8 1 1500 60 1 500"]
  by (simp add: init_self_def)




text \<open>
  Claim C10. \<open>_calculate_pattern\<close> is deterministic in the six parameters: on two objects
  that agree on \<open>wavelength\<close>, \<open>refractive_index\<close>, \<open>thickness\<close>,
  \<open>incidence_angle_range\<close>, \<open>intensity_max\<close> and \<open>resolution\<close> (and may differ in
  the sliders and the image) it raises the same error or returns the same field, and it
  leaves each object as it was.
\<close>

theorem calculate_pattern_deterministic:
  assumes "wavelength s1 = wavelength s2" and "refractive_index s1 = refractive_index s2"
    and "thickness s1 = thickness s2" and "incidence_angle_range s1 = incidence_angle_range s2"
    and "intensity_max s1 = intensity_max s2" and "resolution s1 = resolution s2"
  shows "case calculate_pattern s1 of
           Inl e \<Rightarrow> calculate_pattern s2 = Inl e
         | Inr (F, s1') \<Rightarrow> s1' = s1 \<and> calculate_pattern s2 = Inr (F, s2)"
proof -
  have "phase_delta s1 = phase_delta s2" "intensity s1 = intensity s2"
    using assms by (auto simp: phase_delta_def intensity_def fun_eq_iff)
  then show ?thesis
    using assms by (simp add: calculate_pattern_def Let_def case_prod_beta split: sum.splits)
qed

theorem calculate_pattern_deterministic_witness:
  "wavelength (init_self 632.8 1 1500 60 1 2) =
     wavelength ((init_self 632.8 1 1500 60 1 2)\<lparr>slider_thickness := Slider 100 5000 2000, img_data := [[NaN]]\<rparr>) \<and>
   (case calculate_pattern (init_self 632.8 1 1500 60 1 2) of
      Inl e \<Rightarrow> calculate_pattern ((init_self 632.8 1 1500 60 1 2)\<lparr>slider_thickness := Slider 100 5000 2000, img_data := [[NaN]]\<rparr>) = Inl e
    | Inr (F, s1') \<Rightarrow> s1' = init_self 632.8 1 1500 60 1 2 \<and>
        calculate_pattern ((init_self 632.8 1 1500 60 1 2)\<lparr>slider_thickness := Slider 100 5000 2000, img_data := [[NaN]]\<rparr>)
          = Inr (F, (init_self 632.8 1 1500 60 1 2)\<lparr>slider_thickness := Slider 100 5000 2000, img_data := [[NaN]]\<rparr>))"
  using calculate_pattern_deterministic [of "init_self 632.8 1 1500 60 1 2"
      "(init_self 632.8 1 1500 60 1 2)\<lparr>slider_thickness := Slider 100 5000 2000, img_data := [[NaN]]\<rparr>"]
  by (simp add: init_self_def)

section \<open>Bounds on \<open>pi\<close> and the cosine\<close>

lemma sin_taylor_11:
  "(\<Sum>m<11. sin_coeff m * x ^ m) =
     x - x ^ 3 / 6 + x ^ 5 / 120 - x ^ 7 / 5040 + x ^ 9 / 362880" for x :: real
  by (simp add: eval_nat_numeral lessThan_Suc sin_coeff_Suc cos_coeff_Suc del: of_nat_Suc)

lemma cos_taylor_12:
  "(\<Sum>m<12. cos_coeff m * x ^ m) =
     1 - x ^ 2 / 2 + x ^ 4 / 24 - x ^ 6 / 720 + x ^ 8 / 40320 - x ^ 10 / 3628800" for x :: real
  by (simp add: eval_nat_numeral lessThan_Suc sin_coeff_Suc cos_coeff_Suc del: of_nat_Suc)

lemma Maclaurin_cos_bound:
  "\<bar>cos x - (\<Sum>m<n. cos_coeff m * x ^ m)\<bar> \<le> \<bar>x\<bar> ^ n / fact n" for x :: real
proof -
  obtain t where "cos x = (\<Sum>m<n. cos_coeff m * x ^ m) + (cos (t + 1/2 * real n * pi) / fact n) * x ^ n"
    using Maclaurin_cos_expansion [of x n] by blast
  then have "\<bar>cos x - (\<Sum>m<n. cos_coeff m * x ^ m)\<bar> = \<bar>cos (t + 1/2 * real n * pi)\<bar> * (\<bar>x\<bar> ^ n / fact n)"
    by (simp add: abs_mult power_abs)
  also have "\<dots> \<le> 1 * (\<bar>x\<bar> ^ n / fact n)"
    by (rule mult_right_mono) (simp_all add: abs_cos_le_one)
  finally show ?thesis by simp
qed

lemma pi_lower: "3.141592 < pi"
proof -
  let ?x = "3.141592 / 6 :: real"
  have "\<bar>sin ?x - (\<Sum>m<11. sin_coeff m * ?x ^ m)\<bar> \<le> inverse (fact 11) * \<bar>?x\<bar> ^ 11"
    by (rule Maclaurin_sin_bound)
  then have "sin ?x \<le> (\<Sum>m<11. sin_coeff m * ?x ^ m) + inverse (fact 11) * \<bar>?x\<bar> ^ 11"
    by linarith
  also have "\<dots> < 1 / 2"
    unfolding sin_taylor_11 by (simp add: fact_numeral power_divide field_simps)
  finally have "sin ?x < sin (pi / 6)" by (simp add: sin_30)
  moreover have "- (pi / 2) \<le> ?x" "?x \<le> pi / 2" "- (pi / 2) \<le> pi / 6" "pi / 6 \<le> pi / 2"
    using pi_ge_two by simp_all
  ultimately have "?x < pi / 6"
    by (simp add: sin_mono_less_eq)
  then show ?thesis by simp
qed

lemma pi_upper: "pi < 3.141593"
proof -
  let ?x = "3.141593 / 6 :: real"
  have "\<bar>sin ?x - (\<Sum>m<11. sin_coeff m * ?x ^ m)\<bar> \<le> inverse (fact 11) * \<bar>?x\<bar> ^ 11"
    by (rule Maclaurin_sin_bound)
  then have "(\<Sum>m<11. sin_coeff m * ?x ^ m) - inverse (fact 11) * \<bar>?x\<bar> ^ 11 \<le> sin ?x"
    by linarith
  moreover have "1 / 2 < (\<Sum>m<11. sin_coeff m * ?x ^ m) - inverse (fact 11) * \<bar>?x\<bar> ^ 11"
    unfolding sin_taylor_11 by (simp add: fact_numeral power_divide field_simps)
  ultimately have "sin (pi / 6) < sin ?x" by (simp add: sin_30)
  moreover have "- (pi / 2) \<le> ?x" "?x \<le> pi / 2" "- (pi / 2) \<le> pi / 6" "pi / 6 \<le> pi / 2"
    using pi_ge_two by simp_all
  ultimately have "pi / 6 < ?x"
    by (simp add: sin_mono_less_eq)
  then show ?thesis by simp
qed

lemma cos_centre_bounds:
  "0.53286 < cos (pi * (254 / 791))" "cos (pi * (254 / 791)) < 0.53288"
proof -
  let ?lo = "3.141592 * (254 / 791) :: real" and ?hi = "3.141593 * (254 / 791) :: real"
  let ?y = "pi * (254 / 791)"
  have y: "?lo < ?y" "?y < ?hi"
    using pi_lower pi_upper by simp_all
  have rng: "0 \<le> ?lo" "?hi \<le> pi" "0 \<le> ?y" "?y \<le> pi"
    using pi_ge_two by simp_all
  have "cos ?hi < cos ?y"
    using y rng by (intro cos_monotone_0_pi) simp_all
  moreover have "cos ?y < cos ?lo"
    using y rng by (intro cos_monotone_0_pi) simp_all
  moreover have "\<bar>cos ?hi - (\<Sum>m<12. cos_coeff m * ?hi ^ m)\<bar> \<le> \<bar>?hi\<bar> ^ 12 / fact 12"
    by (rule Maclaurin_cos_bound)
  then have "(\<Sum>m<12. cos_coeff m * ?hi ^ m) - \<bar>?hi\<bar> ^ 12 / fact 12 \<le> cos ?hi"
    by linarith
  moreover have "0.53286 < (\<Sum>m<12. cos_coeff m * ?hi ^ m) - \<bar>?hi\<bar> ^ 12 / fact 12"
    unfolding cos_taylor_12 by (simp add: fact_numeral power_divide field_simps)
  moreover have "\<bar>cos ?lo - (\<Sum>m<12. cos_coeff m * ?lo ^ m)\<bar> \<le> \<bar>?lo\<bar> ^ 12 / fact 12"
    by (rule Maclaurin_cos_bound)
  then have "cos ?lo \<le> (\<Sum>m<12. cos_coeff m * ?lo ^ m) + \<bar>?lo\<bar> ^ 12 / fact 12"
    by linarith
  moreover have "(\<Sum>m<12. cos_coeff m * ?lo ^ m) + \<bar>?lo\<bar> ^ 12 / fact 12 < 0.53288"
    unfolding cos_taylor_12 by (simp add: fact_numeral power_divide field_simps)
  ultimately show "0.53286 < cos ?y" "cos ?y < 0.53288"
    by linarith+
qed

lemma cos_shift_6pi: "cos (y + 6 * pi) = cos y" for y :: real
  by (simp add: cos_add)

lemma default_phase: "4 * pi * 1 * 1000 / 632.8 = pi * (254 / 791) + 6 * pi"
  by (simp add: field_simps)

lemma default_phase_bounds:
  "19.85835 < 4 * pi * 1 * 1000 / 632.8" "4 * pi * 1 * 1000 / 632.8 < 19.85845"
  using pi_lower pi_upper by (simp_all add: field_simps)

lemma default_centre_bounds:
  "1.53286 < 1 * (1 + cos (4 * pi * 1 * 1000 / 632.8))"
  "1 * (1 + cos (4 * pi * 1 * 1000 / 632.8)) < 1.53288"
  unfolding default_phase cos_shift_6pi using cos_centre_bounds by simp_all

lemma cos_ge_quadratic: "1 - x ^ 2 / 2 \<le> cos x" for x :: real
proof -
  have "\<bar>cos x - (\<Sum>m<2. cos_coeff m * x ^ m)\<bar> \<le> \<bar>x\<bar> ^ 2 / fact 2"
    by (rule Maclaurin_cos_bound)
  moreover have "(\<Sum>m<2. cos_coeff m * x ^ m) = 1"
    by (simp add: eval_nat_numeral lessThan_Suc cos_coeff_Suc del: of_nat_Suc)
  ultimately show ?thesis
    by (simp add: fact_numeral abs_le_iff)
qed

section \<open>The centre of the field\<close>

lemma linspace_centre:
  assumes xs: "linspace (- a) a n = Inr xs" and n: "n = 2 * int k + 1" and k: "0 < k"
  shows "xs ! k = 0"
proof -
  have "k < nat n" using n by simp
  from linspace_nth [OF xs this] n k show ?thesis by simp
qed

lemma calculate_pattern_centre:
  assumes "resolution s = 2 * int k + 1" and "0 < k"
  shows "\<exists>F. calculate_pattern s = Inr (F, s) \<and> F ! k ! k = cell s 0 0"
proof -
  have "0 \<le> resolution s" using assms by simp
  then obtain xs where xs: "linspace (- incidence_angle_range s) (incidence_angle_range s) (resolution s) = Inr xs"
    using linspace_Inr by blast
  have len: "k < length xs" using linspace_length [OF xs] assms by simp
  have "xs ! k = 0" by (rule linspace_centre [OF xs assms])
  with len show ?thesis
    by (simp add: calculate_pattern_cells [OF xs])
qed

lemma cell_centre:
  "wavelength s \<noteq> 0 \<Longrightarrow>
   cell s 0 0 = Val (intensity_max s * (1 + cos (4 * pi * refractive_index s * thickness s / wavelength s)))"
  by (simp add: cell_Val)

text \<open>
  Claim C4, as amended. For every parameter tuple with a wavelength other than zero, the
  element computed at \<open>x = 0\<close>, \<open>y = 0\<close> (where \<open>theta = 0\<close>) is exactly
  \<open>intensity_max * (1 + cos (4 * pi * refractive_index * thickness / wavelength))\<close>; and
  when the resolution is odd and at least 3, \<open>resolution = 2 * k + 1\<close>, the grid has this
  point and the returned field holds that value at row \<open>k\<close>, column \<open>k\<close>.
\<close>

theorem centre_closed_form:
  assumes "wavelength s \<noteq> 0"
  shows "cell s 0 0 =
           Val (intensity_max s * (1 + cos (4 * pi * refractive_index s * thickness s / wavelength s))) \<and>
         (0 < k \<and> resolution s = 2 * int k + 1 \<longrightarrow>
            (\<exists>F. calculate_pattern s = Inr (F, s) \<and>
                 F ! k ! k = Val (intensity_max s *
                    (1 + cos (4 * pi * refractive_index s * thickness s / wavelength s)))))"
  using assms calculate_pattern_centre [of s k] by (auto simp: cell_centre)

theorem centre_closed_form_witness:
  "wavelength (init_self 632.8 1 1000 30 1 501) \<noteq> 0 \<and>
   cell (init_self 632.8 1 1000 30 1 501) 0 0 = Val (1 * (1 + cos (4 * pi * 1 * 1000 / 632.8))) \<and>
   (0::nat) < 250 \<and> resolution (init_self 632.8 1 1000 30 1 501) = 2 * int 250 + 1 \<and>
   (\<exists>F. calculate_pattern (init_self 632.8 1 1000 30 1 501) = Inr (F, init_self 632.8 1 1000 30 1 501) \<and>
        F ! 250 ! 250 = Val (1 * (1 + cos (4 * pi * 1 * 1000 / 632.8))))"
  using centre_closed_form [of "init_self 632.8 1 1000 30 1 501" 250]
  by (simp add: init_self_def)

lemma default_coords:
  assumes "linspace (- 30) 30 500 = Inr xs"
  shows "0 \<notin> set xs" and "xs ! 249 = - (30 / 499)" and "xs ! 250 = 30 / 499"
proof -
  have nth: "xs ! i = - 30 + real i * (60 / 499)" if "i < 500" for i
    using linspace_nth [OF assms, of i] that by simp
  show "0 \<notin> set xs"
  proof
    assume "0 \<in> set xs"
    then obtain i where i: "i < length xs" and z: "xs ! i = 0"
      by (auto simp: in_set_conv_nth)
    from i have "i < 500" using linspace_length [OF assms] by simp
    from nth [OF this] z have "real i * 60 = 30 * 499" by (simp add: field_simps)
    then have "real (i * 60) = real (30 * 499)" by simp
    then have "i * 60 = 30 * 499" by (simp only: of_nat_eq_iff)
    then show False by presburger
  qed
  show "xs ! 249 = - (30 / 499)" using nth [of 249] by simp
  show "xs ! 250 = 30 / 499" using nth [of 250] by simp
qed

lemma off_centre_cos:
  defines "c \<equiv> cos (sqrt (1800 / 249001) * pi / 180)"
  shows "cos (4 * pi * 1 * 1000 * c / 632.8) \<noteq> cos (4 * pi * 1 * 1000 / 632.8)"
proof -
  let ?t = "sqrt (1800 / 249001) * pi / 180"
  have sq: "0 < sqrt (1800 / 249001 :: real)" "sqrt (1800 / 249001 :: real) \<le> 1"
    by (simp_all add: real_sqrt_le_1_iff)
  have t0: "0 < ?t" using sq by simp
  have "?t \<le> 1 * pi / 180"
    using sq by (intro divide_right_mono mult_right_mono) simp_all
  then have t1: "?t \<le> 1 / 45" "?t \<le> pi"
    using pi_less_4 pi_gt_zero by linarith+
  have "c < cos 0"
    unfolding c_def using t0 t1 by (intro cos_monotone_0_pi) simp_all
  then have c1: "c < 1" by simp
  have "?t ^ 2 \<le> (1 / 45) ^ 2"
    using t0 t1 by (intro power_mono) simp_all
  then have "1 - (1 / 45) ^ 2 / 2 \<le> 1 - ?t ^ 2 / 2" by simp
  also have "\<dots> \<le> c" unfolding c_def by (rule cos_ge_quadratic)
  finally have c2: "4746 / 5000 \<le> c" by (simp add: power_divide)
  let ?u = "pi * (254 / 791)" and ?v = "pi * (5000 / 791) * c - 6 * pi"
  have "6 * pi = pi * (5000 / 791) * (4746 / 5000)" by simp
  also have "\<dots> \<le> pi * (5000 / 791) * c"
    using c2 by (intro mult_left_mono) simp_all
  finally have v0: "0 \<le> ?v" by simp
  have "pi * (5000 / 791) * c < pi * (5000 / 791) * 1"
    using c1 by (intro mult_strict_left_mono) simp_all
  then have vu: "?v < ?u" by (simp add: field_simps)
  have "?u \<le> pi" by simp
  with v0 vu have "cos ?u < cos ?v" by (intro cos_monotone_0_pi) simp_all
  moreover have "cos (4 * pi * 1 * 1000 * c / 632.8) = cos (?v + 6 * pi)"
    by (simp add: field_simps)
  moreover have "cos (4 * pi * 1 * 1000 / 632.8) = cos (?u + 6 * pi)"
    by (simp add: field_simps)
  ultimately show ?thesis
    by (simp only: cos_shift_6pi)
qed

text \<open>
  With an even resolution the grid has no point at \<open>x = 0\<close> or \<open>y = 0\<close>. For the default
  tuple (wavelength 632.8, index 1, thickness 1000, range 30, factor 1, resolution 500)
  no coordinate is zero, and none of the four elements around the middle of the field,
  at \<open>30 / 499\<close> degrees on either side of zero, has the value of the closed form.
\<close>

theorem centre_default_resolution_counterexample:
  "0 \<notin> set (projr (linspace (- 30) 30 500)) \<and>
   fst (projr (calculate_pattern (init_self 632.8 1 1000 30 1 500))) ! 249 ! 249
     \<noteq> Val (1 * (1 + cos (4 * pi * 1 * 1000 / 632.8))) \<and>
   fst (projr (calculate_pattern (init_self 632.8 1 1000 30 1 500))) ! 249 ! 250
     \<noteq> Val (1 * (1 + cos (4 * pi * 1 * 1000 / 632.8))) \<and>
   fst (projr (calculate_pattern (init_self 632.8 1 1000 30 1 500))) ! 250 ! 249
     \<noteq> Val (1 * (1 + cos (4 * pi * 1 * 1000 / 632.8))) \<and>
   fst (projr (calculate_pattern (init_self 632.8 1 1000 30 1 500))) ! 250 ! 250
     \<noteq> Val (1 * (1 + cos (4 * pi * 1 * 1000 / 632.8)))"
proof -
  let ?s = "init_self 632.8 1 1000 30 1 500"
  obtain xs where xs: "linspace (- 30) 30 500 = Inr xs"
    using linspace_Inr [of 500 "- 30" 30] by auto
  note co = default_coords [OF xs]
  have len: "length xs = 500" using linspace_length [OF xs] by simp
  have xs': "linspace (- incidence_angle_range ?s) (incidence_angle_range ?s) (resolution ?s) = Inr xs"
    using xs by (simp add: init_self_def)
  have sq: "(30 / 499 :: real) ^ 2 + (30 / 499) ^ 2 = 1800 / 249001"
    by (simp add: power_divide)
  have cellv: "cell ?s xv yv \<noteq> Val (1 * (1 + cos (4 * pi * 1 * 1000 / 632.8)))"
    if "xv ^ 2 + yv ^ 2 = 1800 / 249001" for xv yv
  proof -
    have "cell ?s xv yv = Val (intensity_max ?s * (1 + cos (4 * pi * refractive_index ?s
            * thickness ?s * cos (sqrt (xv ^ 2 + yv ^ 2) * pi / 180) / wavelength ?s)))"
      by (rule cell_Val) (simp add: init_self_def)
    also have "\<dots> = Val (1 * (1 + cos (4 * pi * 1 * 1000
            * cos (sqrt (1800 / 249001) * pi / 180) / 632.8)))"
      unfolding that by (simp add: init_self_def)
    finally show ?thesis using off_centre_cos by simp
  qed
  have F: "fst (projr (calculate_pattern ?s)) ! i ! j = cell ?s (xs ! j) (xs ! i)"
    if "i < 500" "j < 500" for i j
    unfolding calculate_pattern_cells [OF xs'] using that len by simp
  have "0 \<notin> set (projr (linspace (- 30) 30 500))"
    using co(1) xs by simp
  moreover have "cell ?s (- (30 / 499)) (- (30 / 499)) \<noteq> Val (1 * (1 + cos (4 * pi * 1 * 1000 / 632.8)))"
    "cell ?s (30 / 499) (- (30 / 499)) \<noteq> Val (1 * (1 + cos (4 * pi * 1 * 1000 / 632.8)))"
    "cell ?s (- (30 / 499)) (30 / 499) \<noteq> Val (1 * (1 + cos (4 * pi * 1 * 1000 / 632.8)))"
    "cell ?s (30 / 499) (30 / 499) \<noteq> Val (1 * (1 + cos (4 * pi * 1 * 1000 / 632.8)))"
    using sq by (intro cellv; simp)+
  moreover have "fst (projr (calculate_pattern ?s)) ! 249 ! 249 = cell ?s (xs ! 249) (xs ! 249)"
    "fst (projr (calculate_pattern ?s)) ! 249 ! 250 = cell ?s (xs ! 250) (xs ! 249)"
    "fst (projr (calculate_pattern ?s)) ! 250 ! 249 = cell ?s (xs ! 249) (xs ! 250)"
    "fst (projr (calculate_pattern ?s)) ! 250 ! 250 = cell ?s (xs ! 250) (xs ! 250)"
    by (rule F; simp)+
  ultimately show ?thesis
    unfolding co(2,3) by (simp only: not_False_eq_True simp_thms)
qed



text \<open>
  Claim C9, as amended. With wavelength 632.8, refractive index 1, thickness 1000 and
  intensity factor 1, at \<open>theta = 0\<close> the phase \<open>4 * pi * 1000 / 632.8\<close> is 19.8584 and
  the intensity \<open>1 + cos delta\<close> is 1.5329, both to four decimal places.
\<close>

theorem default_centre_values:
  assumes "wavelength s = 632.8" and "refractive_index s = 1" and "thickness s = 1000"
    and "intensity_max s = 1"
  shows "in_interval 19.85835 19.85845 (phase_delta s (radians 0)) \<and>
         in_interval 1.53285 1.53295 (intensity s (phase_delta s (radians 0)))"
proof -
  have d: "phase_delta s (radians 0) = Val (4 * pi * 1 * 1000 / 632.8)"
    unfolding phase_delta_def assms by (simp add: radians_def fdiv_def)
  have i: "intensity s (Val (4 * pi * 1 * 1000 / 632.8)) = Val (1 * (1 + cos (4 * pi * 1 * 1000 / 632.8)))"
    unfolding intensity_def assms by simp
  show ?thesis
    unfolding d i using default_phase_bounds default_centre_bounds
    by (simp add: in_interval_def)
qed

theorem default_centre_values_witness:
  "wavelength (init_self 632.8 1 1000 30 1 500) = 632.8 \<and>
   refractive_index (init_self 632.8 1 1000 30 1 500) = 1 \<and>
   thickness (init_self 632.8 1 1000 30 1 500) = 1000 \<and>
   intensity_max (init_self 632.8 1 1000 30 1 500) = 1 \<and>
   in_interval 19.85835 19.85845 (phase_delta (init_self 632.8 1 1000 30 1 500) (radians 0)) \<and>
   in_interval 1.53285 1.53295
     (intensity (init_self 632.8 1 1000 30 1 500)
        (phase_delta (init_self 632.8 1 1000 30 1 500) (radians 0)))"
  using default_centre_values [of "init_self 632.8 1 1000 30 1 500"]
  by (simp add: init_self_def)

text \<open>
  The figures 19.8557 for the phase and 1.9825 for the intensity are not those of the
  program: at the default parameters each is off by more than 0.001.
\<close>

theorem default_centre_values_counterexample:
  "\<not> in_interval (19.8557 - 0.001) (19.8557 + 0.001)
        (phase_delta (init_self 632.8 1 1000 30 1 500) (radians 0)) \<and>
   \<not> in_interval (1.9825 - 0.001) (1.9825 + 0.001)
        (intensity (init_self 632.8 1 1000 30 1 500)
           (phase_delta (init_self 632.8 1 1000 30 1 500) (radians 0)))"
proof -
  let ?s = "init_self 632.8 1 1000 30 1 500"
  have d: "phase_delta ?s (radians 0) = Val (4 * pi * 1 * 1000 / 632.8)"
    by (simp add: phase_delta_def radians_def fdiv_def init_self_def)
  have i: "intensity ?s (Val (4 * pi * 1 * 1000 / 632.8)) = Val (1 * (1 + cos (4 * pi * 1 * 1000 / 632.8)))"
    by (simp add: intensity_def init_self_def)
  show ?thesis
    unfolding d i using default_phase_bounds default_centre_bounds
    by (simp add: in_interval_def)
qed

section \<open>The animation\<close>




section \<open>Sliders, \<open>update\<close> and \<open>reset\<close>\<close>

lemma calculate_pattern_img:
  "calculate_pattern s = Inr (F, s') \<Longrightarrow>
   calculate_pattern (s\<lparr>img_data := G, img_extent := E\<rparr>) = Inr (F, s\<lparr>img_data := G, img_extent := E\<rparr>)"
  by (auto simp: calculate_pattern_def Let_def case_prod_beta phase_delta_def intensity_def
        arr_map_def split: sum.splits)

lemma calculate_pattern_total:
  "0 \<le> resolution s \<Longrightarrow> \<exists>F. calculate_pattern s = Inr (F, s)"
  using linspace_Inr [of "resolution s"] calculate_pattern_cells [of s] by blast

lemma update_result:
  assumes "0 \<le> resolution s"
  shows "\<exists>F. update s v =
           Inr (s\<lparr>wavelength := val (slider_wavelength s),
                   thickness := val (slider_thickness s),
                   refractive_index := val (slider_refractive s),
                   incidence_angle_range := val (slider_angle s),
                   img_data := F,
                   img_extent := [- val (slider_angle s), val (slider_angle s),
                                  - val (slider_angle s), val (slider_angle s)]\<rparr>) \<and>
         calculate_pattern (s\<lparr>wavelength := val (slider_wavelength s),
                   thickness := val (slider_thickness s),
                   refractive_index := val (slider_refractive s),
                   incidence_angle_range := val (slider_angle s)\<rparr>) =
           Inr (F, s\<lparr>wavelength := val (slider_wavelength s),
                   thickness := val (slider_thickness s),
                   refractive_index := val (slider_refractive s),
                   incidence_angle_range := val (slider_angle s)\<rparr>)"
proof -
  let ?s4 = "s\<lparr>wavelength := val (slider_wavelength s),
                   thickness := val (slider_thickness s),
                   refractive_index := val (slider_refractive s),
                   incidence_angle_range := val (slider_angle s)\<rparr>"
  have "0 \<le> resolution ?s4" using assms by simp
  then obtain F where F: "calculate_pattern ?s4 = Inr (F, ?s4)"
    using calculate_pattern_total by blast
  then show ?thesis
    by (simp add: update_def Let_def)
qed

lemma update_settled:
  assumes "0 \<le> resolution s" and "update s v = Inr s'"
  shows "settled s'" and "slider_wavelength s' = slider_wavelength s"
    and "slider_thickness s' = slider_thickness s" and "slider_refractive s' = slider_refractive s"
    and "slider_angle s' = slider_angle s" and "intensity_max s' = intensity_max s"
    and "resolution s' = resolution s"
proof -
  obtain F where u: "update s v =
           Inr (s\<lparr>wavelength := val (slider_wavelength s),
                   thickness := val (slider_thickness s),
                   refractive_index := val (slider_refractive s),
                   incidence_angle_range := val (slider_angle s),
                   img_data := F,
                   img_extent := [- val (slider_angle s), val (slider_angle s),
                                  - val (slider_angle s), val (slider_angle s)]\<rparr>)"
    and c: "calculate_pattern (s\<lparr>wavelength := val (slider_wavelength s),
                   thickness := val (slider_thickness s),
                   refractive_index := val (slider_refractive s),
                   incidence_angle_range := val (slider_angle s)\<rparr>) =
           Inr (F, s\<lparr>wavelength := val (slider_wavelength s),
                   thickness := val (slider_thickness s),
                   refractive_index := val (slider_refractive s),
                   incidence_angle_range := val (slider_angle s)\<rparr>)"
    using update_result [OF assms(1), of v] by blast
  from u assms(2) have s': "s' = s\<lparr>wavelength := val (slider_wavelength s),
                   thickness := val (slider_thickness s),
                   refractive_index := val (slider_refractive s),
                   incidence_angle_range := val (slider_angle s),
                   img_data := F,
                   img_extent := [- val (slider_angle s), val (slider_angle s),
                                  - val (slider_angle s), val (slider_angle s)]\<rparr>"
    by simp
  show "settled s'"
    unfolding settled_def s' using calculate_pattern_img [OF c] by simp
  show "slider_wavelength s' = slider_wavelength s" "slider_thickness s' = slider_thickness s"
    "slider_refractive s' = slider_refractive s" "slider_angle s' = slider_angle s"
    "intensity_max s' = intensity_max s" "resolution s' = resolution s"
    unfolding s' by simp_all
qed

lemma calculate_pattern_agree:
  assumes "wavelength s1 = wavelength s2" and "refractive_index s1 = refractive_index s2"
    and "thickness s1 = thickness s2" and "incidence_angle_range s1 = incidence_angle_range s2"
    and "intensity_max s1 = intensity_max s2" and "resolution s1 = resolution s2"
    and "calculate_pattern s1 = Inr (F, s1')"
  shows "calculate_pattern s2 = Inr (F, s2)"
proof -
  have "phase_delta s1 = phase_delta s2" "intensity s1 = intensity s2"
    using assms by (auto simp: phase_delta_def intensity_def fun_eq_iff)
  then show ?thesis
    using assms by (auto simp: calculate_pattern_def Let_def case_prod_beta split: sum.splits)
qed

lemma get_put_slider:
  "get_slider nm (put_slider nm sl s) = sl"
  "nm' \<noteq> nm \<Longrightarrow> get_slider nm' (put_slider nm sl s) = get_slider nm' s"
  "resolution (put_slider nm sl s) = resolution s"
  "intensity_max (put_slider nm sl s) = intensity_max s"
  by (cases nm; cases nm'; simp)+

lemma get_slider_update:
  assumes "0 \<le> resolution s" and "update s v = Inr s'"
  shows "get_slider nm s' = get_slider nm s"
  using update_settled(2-5) [OF assms] by (cases nm) simp_all

lemma slider_set_val_kept:
  assumes "kept s0 s" and "0 \<le> resolution s0"
  shows "\<exists>s'. slider_set_val nm v s = Inr s' \<and> kept s0 s' \<and> val (get_slider nm s') = v \<and>
              (\<forall>nm'. nm' \<noteq> nm \<longrightarrow> get_slider nm' s' = get_slider nm' s)"
proof -
  let ?t = "put_slider nm ((get_slider nm s)\<lparr>val := v\<rparr>) s"
  have r: "0 \<le> resolution ?t" using assms by (simp add: kept_def get_put_slider)
  then obtain s' where s': "update ?t v = Inr s'"
    using update_result [of ?t v] by blast
  have g: "get_slider nm' s' = get_slider nm' ?t" for nm'
    by (rule get_slider_update [OF r s'])
  have "settled s'" "intensity_max s' = intensity_max ?t" "resolution s' = resolution ?t"
    using update_settled [OF r s'] by simp_all
  moreover have "valinit (get_slider nm' s') = valinit (get_slider nm' s0) \<and>
           valmin (get_slider nm' s') = valmin (get_slider nm' s0) \<and>
           valmax (get_slider nm' s') = valmax (get_slider nm' s0)" for nm'
    using assms(1) by (cases "nm' = nm") (simp_all add: g get_put_slider kept_def)
  ultimately have "kept s0 s'"
    using assms(1) by (simp add: kept_def get_put_slider)
  then show ?thesis
    using s' by (simp add: slider_set_val_def g get_put_slider)
qed

lemma slider_drag_kept:
  assumes "kept s0 s" and "0 \<le> resolution s0"
  shows "\<exists>s'. slider_drag nm v s = Inr s' \<and> kept s0 s'"
  using assms slider_set_val_kept [OF assms, of nm "value_in_bounds (get_slider nm s) v"]
  by (auto simp: slider_drag_def Let_def)

lemma slider_reset_kept:
  assumes "kept s0 s" and "0 \<le> resolution s0"
  shows "\<exists>s'. slider_reset nm s = Inr s' \<and> kept s0 s' \<and>
              val (get_slider nm s') = valinit (get_slider nm s0) \<and>
              (\<forall>nm'. nm' \<noteq> nm \<longrightarrow> get_slider nm' s' = get_slider nm' s)"
proof (cases "val (get_slider nm s) \<noteq> valinit (get_slider nm s)")
  case True
  then show ?thesis
    using assms slider_set_val_kept [OF assms, of nm "valinit (get_slider nm s)"]
    by (auto simp: slider_reset_def kept_def)
next
  case False
  then show ?thesis
    using assms by (auto simp: slider_reset_def kept_def)
qed

lemma reset_kept:
  assumes "kept s0 s" and r: "0 \<le> resolution s0"
  shows "\<exists>s'. reset s = Inr s' \<and> kept s0 s' \<and>
              (\<forall>nm. val (get_slider nm s') = valinit (get_slider nm s0))"
proof -
  obtain s1 where s1: "slider_reset SWavelength s = Inr s1" "kept s0 s1"
      "val (get_slider SWavelength s1) = valinit (get_slider SWavelength s0)"
    using slider_reset_kept [OF assms, of SWavelength] by blast
  obtain s2 where s2: "slider_reset SThickness s1 = Inr s2" "kept s0 s2"
      "val (get_slider SThickness s2) = valinit (get_slider SThickness s0)"
      "\<forall>nm'. nm' \<noteq> SThickness \<longrightarrow> get_slider nm' s2 = get_slider nm' s1"
    using slider_reset_kept [OF s1(2) r, of SThickness] by blast
  obtain s3 where s3: "slider_reset SRefractive s2 = Inr s3" "kept s0 s3"
      "val (get_slider SRefractive s3) = valinit (get_slider SRefractive s0)"
      "\<forall>nm'. nm' \<noteq> SRefractive \<longrightarrow> get_slider nm' s3 = get_slider nm' s2"
    using slider_reset_kept [OF s2(2) r, of SRefractive] by blast
  obtain s4 where s4: "slider_reset SAngle s3 = Inr s4" "kept s0 s4"
      "val (get_slider SAngle s4) = valinit (get_slider SAngle s0)"
      "\<forall>nm'. nm' \<noteq> SAngle \<longrightarrow> get_slider nm' s4 = get_slider nm' s3"
    using slider_reset_kept [OF s3(2) r, of SAngle] by blast
  have "val (get_slider nm s4) = valinit (get_slider nm s0)" for nm
  proof (cases nm)
    case SWavelength
    have "get_slider SWavelength s4 = get_slider SWavelength s1"
      using s2(4) [rule_format, of SWavelength] s3(4) [rule_format, of SWavelength]
        s4(4) [rule_format, of SWavelength] by simp
    with s1(3) SWavelength show ?thesis by simp
  next
    case SThickness
    have "get_slider SThickness s4 = get_slider SThickness s2"
      using s3(4) [rule_format, of SThickness] s4(4) [rule_format, of SThickness] by simp
    with s2(3) SThickness show ?thesis by simp
  next
    case SRefractive
    have "get_slider SRefractive s4 = get_slider SRefractive s3"
      using s4(4) [rule_format, of SRefractive] by simp
    with s3(3) SRefractive show ?thesis by simp
  next
    case SAngle
    with s4(3) show ?thesis by simp
  qed
  then show ?thesis
    using s1(1) s2(1) s3(1) s4(1,2) by (simp add: reset_def)
qed

lemma run_events_kept:
  assumes "kept s0 s" and "0 \<le> resolution s0"
  shows "\<exists>s'. run_events s evs = Inr s' \<and> kept s0 s'"
  using assms(1)
proof (induction evs arbitrary: s)
  case Nil
  then show ?case by simp
next
  case (Cons e evs)
  have "\<exists>s1. ui_step s e = Inr s1 \<and> kept s0 s1"
  proof (cases e)
    case (Set nm v)
    then show ?thesis
      using slider_set_val_kept [OF Cons.prems assms(2), of nm v] by auto
  next
    case (Drag nm v)
    then show ?thesis
      using slider_drag_kept [OF Cons.prems assms(2), of nm v] by auto
  qed
  then obtain s1 where "ui_step s e = Inr s1" "kept s0 s1" by blast
  then show ?case
    using Cons.IH [of s1] by simp
qed

lemma kept_same:
  assumes "kept s0 s0" and "kept s0 s"
    and "\<forall>nm. val (get_slider nm s0) = valinit (get_slider nm s0)"
    and "\<forall>nm. val (get_slider nm s) = valinit (get_slider nm s0)"
  shows "s = s0"
proof -
  have sl: "get_slider nm s = get_slider nm s0" for nm
    using assms by (intro slider.equality) (simp_all add: kept_def)
  have sliders: "slider_wavelength s = slider_wavelength s0" "slider_thickness s = slider_thickness s0"
    "slider_refractive s = slider_refractive s0" "slider_angle s = slider_angle s0"
    using sl [of SWavelength] sl [of SThickness] sl [of SRefractive] sl [of SAngle] by simp_all
  have st: "settled s" "settled s0" using assms by (simp_all add: kept_def)
  have f: "wavelength s = wavelength s0" "thickness s = thickness s0"
    "refractive_index s = refractive_index s0" "incidence_angle_range s = incidence_angle_range s0"
    using st sliders by (simp_all add: settled_def)
  have o: "intensity_max s = intensity_max s0" "resolution s = resolution s0"
    using assms(2) by (simp_all add: kept_def)
  have "calculate_pattern s = Inr (img_data s, s)" "calculate_pattern s0 = Inr (img_data s0, s0)"
    using st by (simp_all add: settled_def)
  with calculate_pattern_agree [OF f(1,3,2,4) o, of "img_data s" s]
  have img: "img_data s = img_data s0" by simp
  have ext: "img_extent s = img_extent s0"
    using st f by (simp add: settled_def)
  show ?thesis
    using sliders f o img ext by (intro engine.equality) simp_all
qed

lemma init_kept:
  assumes "400 \<le> w" "w \<le> 800" "1 \<le> n" "n \<le> 2" "100 \<le> d" "d \<le> 5000" "5 \<le> a" "a \<le> 60"
    and "0 \<le> res"
  shows "\<exists>s0. init w n d a imax res = Inr s0 \<and> kept s0 s0 \<and>
           (\<forall>nm. val (get_slider nm s0) = valinit (get_slider nm s0)) \<and>
           wavelength s0 = w \<and> refractive_index s0 = n \<and> thickness s0 = d \<and>
           incidence_angle_range s0 = a \<and> intensity_max s0 = imax \<and> resolution s0 = res"
proof -
  let ?s = "init_self w n d a imax res"
  have "0 \<le> resolution ?s" using assms by (simp add: init_self_def)
  then obtain F where F: "calculate_pattern ?s = Inr (F, ?s)"
    using calculate_pattern_total by blast
  let ?s0 = "?s\<lparr>img_data := F, img_extent := [- a, a, - a, a]\<rparr>"
  have i: "init w n d a imax res = Inr ?s0"
    using F by (simp add: init_def Let_def)
  have v: "val (Slider lo hi x) = x" "valinit (Slider lo hi x) = x" if "lo \<le> x" "x \<le> hi" for lo hi x
    using that by (auto simp: Slider_def value_in_bounds_def Let_def)
  have "settled ?s0"
    unfolding settled_def using calculate_pattern_img [OF F] assms
    by (simp add: init_self_def v)
  then have "kept ?s0 ?s0" by (simp add: kept_def)
  moreover have "val (get_slider nm ?s0) = valinit (get_slider nm ?s0)" for nm
    using assms by (cases nm) (simp_all add: init_self_def v)
  ultimately show ?thesis
    using i by (simp add: init_self_def)
qed

text \<open>
  Claim C6, as amended. For every construction whose four interactive arguments lie within
  the ranges of their sliders (wavelength 400 to 800, refractive index 1 to 2, thickness
  100 to 5000, angle range 5 to 60) and whose resolution is not negative, the constructor
  returns an object with the four fields at the arguments, and after every sequence of
  slider changes \<open>reset\<close> returns exactly that object again: the four interactive
  parameters at their construction values, and with them the same pattern.
\<close>

theorem reset_restores_construction:
  assumes "400 \<le> w" "w \<le> 800" "1 \<le> n" "n \<le> 2" "100 \<le> d" "d \<le> 5000" "5 \<le> a" "a \<le> 60"
    and "0 \<le> res"
  shows "\<exists>s0. init w n d a imax res = Inr s0 \<and>
           wavelength s0 = w \<and> refractive_index s0 = n \<and> thickness s0 = d \<and>
           incidence_angle_range s0 = a \<and>
           (\<forall>evs. \<exists>s. run_events s0 evs = Inr s \<and> reset s = Inr s0)"
proof -
  obtain s0 where s0: "init w n d a imax res = Inr s0" "kept s0 s0"
      "\<forall>nm. val (get_slider nm s0) = valinit (get_slider nm s0)"
      "wavelength s0 = w" "refractive_index s0 = n" "thickness s0 = d"
      "incidence_angle_range s0 = a" "resolution s0 = res"
    using init_kept [OF assms] by blast
  have r: "0 \<le> resolution s0" using s0(8) assms(9) by simp
  have "\<exists>s. run_events s0 evs = Inr s \<and> reset s = Inr s0" for evs
  proof -
    obtain s where s: "run_events s0 evs = Inr s" "kept s0 s"
      using run_events_kept [OF s0(2) r] by blast
    obtain s' where s': "reset s = Inr s'" "kept s0 s'"
        "\<forall>nm. val (get_slider nm s') = valinit (get_slider nm s0)"
      using reset_kept [OF s(2) r] by blast
    have "s' = s0" by (rule kept_same [OF s0(2) s'(2) s0(3) s'(3)])
    with s(1) s'(1) show ?thesis by simp
  qed
  with s0 show ?thesis by blast
qed

theorem reset_restores_construction_witness:
  "(400::real) \<le> 632.8 \<and> (632.8::real) \<le> 800 \<and> (1::real) \<le> 1 \<and> (1::real) \<le> 2 \<and>
   (100::real) \<le> 1000 \<and> (1000::real) \<le> 5000 \<and> (5::real) \<le> 30 \<and> (30::real) \<le> 60 \<and>
   (0::int) \<le> 500 \<and>
   (\<exists>s0 s. init 632.8 1 1000 30 1 500 = Inr s0 \<and>
      wavelength s0 = 632.8 \<and> refractive_index s0 = 1 \<and> thickness s0 = 1000 \<and>
      incidence_angle_range s0 = 30 \<and>
      run_events s0 [Set SThickness 2000, Drag SWavelength 900, Set SAngle 45] = Inr s \<and>
      reset s = Inr s0)"
proof -
  have "\<exists>s0. init 632.8 1 1000 30 1 500 = Inr s0 \<and>
           wavelength s0 = 632.8 \<and> refractive_index s0 = 1 \<and> thickness s0 = 1000 \<and>
           incidence_angle_range s0 = 30 \<and>
           (\<forall>evs. \<exists>s. run_events s0 evs = Inr s \<and> reset s = Inr s0)"
    by (rule reset_restores_construction) simp_all
  then show ?thesis by fastforce
qed

lemma pattern_one_sample:
  assumes "resolution s = 1"
  shows "calculate_pattern s =
           Inr ([[cell s (- incidence_angle_range s) (- incidence_angle_range s)]], s)"
proof -
  have "linspace (- incidence_angle_range s) (incidence_angle_range s) (resolution s)
          = Inr [- incidence_angle_range s]"
    using assms by (simp add: linspace_def)
  from calculate_pattern_cells [OF this] show ?thesis by simp
qed

lemma corner_cos:
  "0 < cos (sqrt ((- 5) ^ 2 + (- 5) ^ 2) * pi / 180)"
proof -
  have "sqrt ((- 5) ^ 2 + (- 5) ^ 2) \<le> sqrt (8 ^ 2)"
    by (intro real_sqrt_le_mono) simp
  then have le: "sqrt ((- 5) ^ 2 + (- 5) ^ 2) \<le> 8" by simp
  have ge: "0 \<le> sqrt ((- 5) ^ 2 + (- 5) ^ 2 :: real)" by simp
  have "sqrt ((- 5) ^ 2 + (- 5) ^ 2) * pi / 180 \<le> 8 * pi / 180"
    using le by (intro divide_right_mono mult_right_mono) simp_all
  also have "\<dots> < pi / 2" by simp
  finally have "sqrt ((- 5) ^ 2 + (- 5) ^ 2) * pi / 180 < pi / 2" .
  moreover have "- (pi / 2) < sqrt ((- 5) ^ 2 + (- 5) ^ 2) * pi / 180"
  proof -
    have "- (pi / 2) < 0" by simp
    also have "0 \<le> sqrt ((- 5) ^ 2 + (- 5) ^ 2) * pi / 180" using ge by simp
    finally show ?thesis .
  qed
  ultimately show ?thesis by (rule cos_gt_zero_pi [rotated])
qed

lemma cos_scaled_less:
  assumes "0 < c" "c \<le> 1" "0 \<le> p" "p < q" "q \<le> 1"
  shows "cos (pi * q * c) < cos (pi * p * c)"
proof (rule cos_monotone_0_pi)
  show "0 \<le> pi * p * c" using assms by simp
  show "pi * p * c < pi * q * c" using assms by simp
  have "pi * q * c \<le> pi * 1 * 1"
    using assms by (intro mult_mono) simp_all
  then show "pi * q * c \<le> pi" by simp
qed

lemma corner_cell:
  assumes "wavelength s = w" and "w \<noteq> 0" and "thickness s = d"
    and "incidence_angle_range s = 5" and "intensity_max s = 1" and "refractive_index s = 1"
    and "4 * d / w = q"
  shows "cell s (- 5) (- 5) =
           Val (1 + cos (pi * q * cos (sqrt ((- 5) ^ 2 + (- 5) ^ 2) * pi / 180)))"
proof -
  have "wavelength s \<noteq> 0" using assms by simp
  from cell_Val [OF this, of "- 5" "- 5"] show ?thesis
    unfolding assms(1,3,5,6) assms(7) [symmetric] by (simp add: field_simps)
qed

lemma update_one_sample:
  assumes "resolution s = 1"
  shows "update s v =
     Inr (s\<lparr>wavelength := val (slider_wavelength s),
            thickness := val (slider_thickness s),
            refractive_index := val (slider_refractive s),
            incidence_angle_range := val (slider_angle s),
            img_data := [[cell (s\<lparr>wavelength := val (slider_wavelength s),
                                   thickness := val (slider_thickness s),
                                   refractive_index := val (slider_refractive s),
                                   incidence_angle_range := val (slider_angle s)\<rparr>)
                            (- val (slider_angle s)) (- val (slider_angle s))]],
            img_extent := [- val (slider_angle s), val (slider_angle s),
                           - val (slider_angle s), val (slider_angle s)]\<rparr>)"
  using assms by (simp add: update_def Let_def pattern_one_sample)

lemma init_one_sample:
  "init w n d a imax 1 =
     Inr ((init_self w n d a imax 1)
            \<lparr>img_data := [[cell (init_self w n d a imax 1) (- a) (- a)]],
             img_extent := [- a, a, - a, a]\<rparr>)"
  by (simp add: init_def Let_def pattern_one_sample init_self_def)

lemma cell_img:
  "cell (s\<lparr>img_data := F, img_extent := E\<rparr>) = cell s"
  by (simp add: cell_def intensity_def phase_delta_def fun_eq_iff)

text \<open>
  Outside the slider ranges the constructor keeps the argument in the field and the clipped
  value in the slider. Constructed with wavelength 1000, after one change of the thickness
  slider \<open>reset\<close> leaves the wavelength at 800, and the pattern differs from that of the
  construction.
\<close>

theorem reset_out_of_range_counterexample:
  "wavelength (projr (init 1000 1 100 5 1 1)) = 1000 \<and>
   wavelength (projr (reset (projr (run_events (projr (init 1000 1 100 5 1 1))
                                      [Set SThickness 150])))) = 800 \<and>
   fst (projr (calculate_pattern
          (projr (reset (projr (run_events (projr (init 1000 1 100 5 1 1))
                                  [Set SThickness 150]))))))
     \<noteq> fst (projr (calculate_pattern (projr (init 1000 1 100 5 1 1))))"
proof -
  let ?s0 = "projr (init 1000 1 100 5 1 1)"
  let ?s2 = "projr (reset (projr (run_events ?s0 [Set SThickness 150])))"
  have f0: "wavelength ?s0 = 1000" "thickness ?s0 = 100" "refractive_index ?s0 = 1"
    "incidence_angle_range ?s0 = 5" "intensity_max ?s0 = 1" "resolution ?s0 = 1"
    by (simp_all add: init_one_sample init_self_def)
  have f2: "wavelength ?s2 = 800" "thickness ?s2 = 100" "refractive_index ?s2 = 1"
    "incidence_angle_range ?s2 = 5" "intensity_max ?s2 = 1" "resolution ?s2 = 1"
    by (simp_all add: init_one_sample init_self_def slider_set_val_def update_one_sample
          reset_def slider_reset_def Slider_def value_in_bounds_def Let_def)
  have lt: "cos (pi * (1 / 2) * cos (sqrt ((- 5) ^ 2 + (- 5) ^ 2) * pi / 180))
        < cos (pi * (2 / 5) * cos (sqrt ((- 5) ^ 2 + (- 5) ^ 2) * pi / 180))"
    by (rule cos_scaled_less [OF corner_cos]) simp_all
  have c2: "cell ?s2 (- 5) (- 5) =
      Val (1 + cos (pi * (1 / 2) * cos (sqrt ((- 5) ^ 2 + (- 5) ^ 2) * pi / 180)))"
    by (rule corner_cell [OF f2(1) _ f2(2) f2(4) f2(5) f2(3)]) simp_all
  have c0: "cell ?s0 (- 5) (- 5) =
      Val (1 + cos (pi * (2 / 5) * cos (sqrt ((- 5) ^ 2 + (- 5) ^ 2) * pi / 180)))"
    by (rule corner_cell [OF f0(1) _ f0(2) f0(4) f0(5) f0(3)]) simp_all
  have p2: "fst (projr (calculate_pattern ?s2)) = [[cell ?s2 (- 5) (- 5)]]"
    unfolding pattern_one_sample [OF f2(6)] f2(4) by simp
  have p0: "fst (projr (calculate_pattern ?s0)) = [[cell ?s0 (- 5) (- 5)]]"
    unfolding pattern_one_sample [OF f0(6)] f0(4) by simp
  have "fst (projr (calculate_pattern ?s2)) \<noteq> fst (projr (calculate_pattern ?s0))"
    unfolding p2 p0 c2 c0 using lt by simp
  with f0(1) f2(1) show ?thesis by blast
qed

lemma param_update:
  assumes "0 \<le> resolution s" and "update s v = Inr s'"
  shows "param nm s' = val (get_slider nm s)"
proof -
  have "settled s'" and "get_slider nm s' = get_slider nm s"
    using update_settled(1) [OF assms] get_slider_update [OF assms] by simp_all
  then show ?thesis
    by (cases nm) (simp_all add: settled_def)
qed

lemma update_img_one:
  assumes "resolution s = 1" and "update s v = Inr s'"
  shows "img_data s' = [[cell s' (- incidence_angle_range s') (- incidence_angle_range s')]]"
proof -
  have r: "0 \<le> resolution s" using assms(1) by simp
  have "calculate_pattern s' = Inr (img_data s', s')" "resolution s' = 1"
    using update_settled(1,7) [OF r assms(2)] assms(1) by (simp_all add: settled_def)
  then show ?thesis
    by (simp add: pattern_one_sample)
qed

text \<open>
  Claim C8, as amended. Setting one slider runs \<open>update\<close>, which reads all four
  interactive fields back from the sliders: the field of the slider takes the new value;
  the other three keep theirs, provided every field equalled the value of its slider
  before; \<open>intensity_max\<close> and \<open>resolution\<close> are unchanged; and \<open>update\<close> itself
  computes the pattern again and stores it in the image.
\<close>

theorem slider_change_effect:
  assumes "\<forall>nm. param nm s = val (get_slider nm s)" and "0 \<le> resolution s"
  shows "\<exists>s'. slider_set_val nm v s = Inr s' \<and>
           param nm s' = v \<and>
           (\<forall>nm'. nm' \<noteq> nm \<longrightarrow> param nm' s' = param nm' s) \<and>
           intensity_max s' = intensity_max s \<and> resolution s' = resolution s \<and>
           calculate_pattern s' = Inr (img_data s', s')"
proof -
  let ?t = "put_slider nm ((get_slider nm s)\<lparr>val := v\<rparr>) s"
  have r: "0 \<le> resolution ?t" using assms(2) by (simp add: get_put_slider)
  then obtain s' where s': "update ?t v = Inr s'"
    using update_result [of ?t v] by blast
  have p: "param nm' s' = val (get_slider nm' ?t)" for nm'
    by (rule param_update [OF r s'])
  have "param nm s' = v"
    by (simp add: p get_put_slider)
  moreover have "param nm' s' = param nm' s" if "nm' \<noteq> nm" for nm'
    using that assms(1) by (simp add: p get_put_slider)
  moreover have "intensity_max s' = intensity_max s" "resolution s' = resolution s"
    using update_settled(6,7) [OF r s'] by (simp_all add: get_put_slider)
  moreover have "calculate_pattern s' = Inr (img_data s', s')"
    using update_settled(1) [OF r s'] by (simp add: settled_def)
  ultimately show ?thesis
    using s' by (simp add: slider_set_val_def)
qed

theorem slider_change_effect_witness:
  "(\<forall>nm. param nm (init_self 632.8 1 1500 60 1 500)
           = val (get_slider nm (init_self 632.8 1 1500 60 1 500))) \<and>
   0 \<le> resolution (init_self 632.8 1 1500 60 1 500) \<and>
   (\<exists>s'. slider_set_val SThickness 2000 (init_self 632.8 1 1500 60 1 500) = Inr s' \<and>
      thickness s' = 2000 \<and> wavelength s' = 632.8 \<and> refractive_index s' = 1 \<and>
      incidence_angle_range s' = 60 \<and> intensity_max s' = 1 \<and> resolution s' = 500 \<and>
      calculate_pattern s' = Inr (img_data s', s'))"
proof -
  let ?s = "init_self 632.8 1 1500 60 1 500"
  have m: "\<forall>nm. param nm ?s = val (get_slider nm ?s)"
  proof
    fix nm show "param nm ?s = val (get_slider nm ?s)"
      by (cases nm) (simp_all add: init_self_def Slider_def value_in_bounds_def Let_def)
  qed
  have r: "0 \<le> resolution ?s" by (simp add: init_self_def)
  obtain s' where s': "slider_set_val SThickness 2000 ?s = Inr s'"
      "param SThickness s' = 2000"
      "\<forall>nm'. nm' \<noteq> SThickness \<longrightarrow> param nm' s' = param nm' ?s"
      "intensity_max s' = intensity_max ?s" "resolution s' = resolution ?s"
      "calculate_pattern s' = Inr (img_data s', s')"
    using slider_change_effect [OF m r, of SThickness 2000] by blast
  have "wavelength s' = 632.8" "refractive_index s' = 1" "incidence_angle_range s' = 60"
    using s'(3) [rule_format, of SWavelength] s'(3) [rule_format, of SRefractive]
      s'(3) [rule_format, of SAngle]
    by (simp_all add: init_self_def)
  moreover have "thickness s' = 2000" "intensity_max s' = 1" "resolution s' = 500"
    using s'(2,4,5) by (simp_all add: init_self_def)
  ultimately show ?thesis
    using m r s'(1,6) by blast
qed

text \<open>
  The change of a slider does recompute: after setting the thickness slider the image
  holds another pattern. And it is not always one field that changes: constructed with
  wavelength 900, the change of the thickness slider moves the wavelength to 800.
\<close>

theorem slider_change_counterexample:
  "img_data (projr (slider_set_val SThickness 150 (projr (init 800 1 100 5 1 1))))
     \<noteq> img_data (projr (init 800 1 100 5 1 1)) \<and>
   wavelength (projr (init 900 1 100 5 1 1)) = 900 \<and>
   wavelength (projr (slider_set_val SThickness 150 (projr (init 900 1 100 5 1 1)))) = 800"
proof -
  let ?s0 = "projr (init 800 1 100 5 1 1)"
  let ?s1 = "projr (slider_set_val SThickness 150 ?s0)"
  have f0: "wavelength ?s0 = 800" "thickness ?s0 = 100" "refractive_index ?s0 = 1"
    "incidence_angle_range ?s0 = 5" "intensity_max ?s0 = 1" "resolution ?s0 = 1"
    by (simp_all add: init_one_sample init_self_def)
  have f1: "wavelength ?s1 = 800" "thickness ?s1 = 150" "refractive_index ?s1 = 1"
    "incidence_angle_range ?s1 = 5" "intensity_max ?s1 = 1" "resolution ?s1 = 1"
    by (simp_all add: init_one_sample init_self_def slider_set_val_def update_one_sample
          Slider_def value_in_bounds_def Let_def)
  have i0: "img_data ?s0 = [[cell ?s0 (- 5) (- 5)]]"
    by (simp add: init_one_sample cell_img)
  let ?p = "put_slider SThickness ((get_slider SThickness ?s0)\<lparr>val := 150\<rparr>) ?s0"
  have rp: "resolution ?p = 1" using f0(6) by (simp add: get_put_slider)
  then obtain t where t: "update ?p 150 = Inr t"
    using update_result [of ?p 150] by auto
  have s1: "?s1 = t" using t by (simp add: slider_set_val_def)
  have "img_data t = [[cell t (- incidence_angle_range t) (- incidence_angle_range t)]]"
    by (rule update_img_one [OF rp t])
  then have i1: "img_data ?s1 = [[cell ?s1 (- 5) (- 5)]]"
    unfolding s1 [symmetric] f1(4) .
  have lt: "cos (pi * (3 / 4) * cos (sqrt ((- 5) ^ 2 + (- 5) ^ 2) * pi / 180))
        < cos (pi * (1 / 2) * cos (sqrt ((- 5) ^ 2 + (- 5) ^ 2) * pi / 180))"
    by (rule cos_scaled_less [OF corner_cos]) simp_all
  have c1: "cell ?s1 (- 5) (- 5) =
      Val (1 + cos (pi * (3 / 4) * cos (sqrt ((- 5) ^ 2 + (- 5) ^ 2) * pi / 180)))"
    by (rule corner_cell [OF f1(1) _ f1(2) f1(4) f1(5) f1(3)]) simp_all
  have c0: "cell ?s0 (- 5) (- 5) =
      Val (1 + cos (pi * (1 / 2) * cos (sqrt ((- 5) ^ 2 + (- 5) ^ 2) * pi / 180)))"
    by (rule corner_cell [OF f0(1) _ f0(2) f0(4) f0(5) f0(3)]) simp_all
  have "img_data ?s1 \<noteq> img_data ?s0"
    unfolding i1 i0 c1 c0 using lt by simp
  moreover have "wavelength (projr (init 900 1 100 5 1 1)) = 900"
    by (simp add: init_one_sample init_self_def)
  moreover have "wavelength (projr (slider_set_val SThickness 150 (projr (init 900 1 100 5 1 1)))) = 800"
    by (simp add: init_one_sample init_self_def slider_set_val_def update_one_sample
          Slider_def value_in_bounds_def Let_def)
  ultimately show ?thesis by blast
qed

text \<open>
  The thickness of a frame is what \<open>update_frame\<close> leaves in the field
  \<open>thickness\<close>: it is stored, put into the slider and read back by \<open>update\<close>.
\<close>

lemma update_frame_thickness:
  assumes "frames \<noteq> 0" and "0 \<le> resolution s"
  shows "\<exists>s'. update_frame frames s frame = Inr s' \<and>
              frame_thickness frames frame = Inr (thickness s')"
proof -
  obtain t where t: "frame_thickness frames frame = Inr t"
    using assms(1) by (simp add: frame_thickness_def)
  let ?p = "put_slider SThickness ((get_slider SThickness (s\<lparr>thickness := t\<rparr>))\<lparr>val := t\<rparr>)
              (s\<lparr>thickness := t\<rparr>)"
  have r: "0 \<le> resolution ?p" using assms(2) by simp
  then obtain s' where s': "update ?p t = Inr s'"
    using update_result [of ?p t] by blast
  have "param SThickness s' = val (get_slider SThickness ?p)"
    by (rule param_update [OF r s'])
  then have "thickness s' = t" by simp
  with t s' show ?thesis
    by (simp add: update_frame_def slider_set_val_def)
qed

end
